theory Spec2Isabelle
  imports Main
begin

section \<open>Python values and built-ins used by the parser\<close>

text \<open>
  The projection functions of \<^verbatim>\<open>remittance.py\<close> return nested Python values: strings,
  \<^verbatim>\<open>None\<close>, lists and dict literals. A dict is kept as the list of its items in
  insertion order, which is what a Python dict literal with distinct keys is.
\<close>

datatype pyval =
    PStr string
  | PNone
  | PList "pyval list"
  | PDict "(string \<times> pyval) list"

datatype py_error = ValueError

text \<open>The items, the keys and a lookup of a dict value (\<open>None\<close>: the key is missing).\<close>

fun dict_items :: "pyval \<Rightarrow> (string \<times> pyval) list" where
  "dict_items (PDict d) = d"
| "dict_items v = []"

definition dict_keys :: "pyval \<Rightarrow> string list" where
  "dict_keys v = map fst (dict_items v)"

definition py_get :: "pyval \<Rightarrow> string \<Rightarrow> pyval option" where
  "py_get v k = map_of (dict_items v) k"

text \<open>
  \<^verbatim>\<open>{**a, **b}\<close>: the items of \<open>b\<close> are stored into \<open>a\<close> one by one; a key already
  present keeps its position and takes the new value, a new key is appended.
\<close>

fun dict_set :: "(string \<times> pyval) list \<Rightarrow> string \<Rightarrow> pyval \<Rightarrow> (string \<times> pyval) list" where
  "dict_set [] k v = [(k, v)]"
| "dict_set ((k', v') # d) k v = (if k' = k then (k', v) # d else (k', v') # dict_set d k v)"

definition dict_merge :: "(string \<times> pyval) list \<Rightarrow> (string \<times> pyval) list \<Rightarrow> (string \<times> pyval) list" where
  "dict_merge a b = foldl (\<lambda>d (k, v). dict_set d k v) a b"

text \<open>
  Python slices \<^verbatim>\<open>xs[a:b]\<close>, \<^verbatim>\<open>xs[a:]\<close> and \<^verbatim>\<open>xs[:b]\<close> on integer bounds: a negative
  bound counts from the end, and every bound is clamped into \<open>0..len(xs)\<close>. A slice
  never raises.
\<close>

definition py_slice_index :: "nat \<Rightarrow> int \<Rightarrow> nat" where
  "py_slice_index n i = (if i < 0 then nat (max (i + int n) 0) else min (nat i) n)"

definition py_slice :: "'a list \<Rightarrow> int \<Rightarrow> int \<Rightarrow> 'a list" where
  "py_slice xs a b =
     (let lo = py_slice_index (length xs) a; hi = py_slice_index (length xs) b
      in take (hi - lo) (drop lo xs))"

definition py_slice_from :: "'a list \<Rightarrow> int \<Rightarrow> 'a list" where
  "py_slice_from xs a = drop (py_slice_index (length xs) a) xs"

definition py_slice_to :: "'a list \<Rightarrow> int \<Rightarrow> 'a list" where
  "py_slice_to xs b = take (py_slice_index (length xs) b) xs"

text \<open>\<^verbatim>\<open>enumerate(xs)\<close>, counting from a start value.\<close>

fun enumerate_from :: "int \<Rightarrow> 'a list \<Rightarrow> (int \<times> 'a) list" where
  "enumerate_from i [] = []"
| "enumerate_from i (x # xs) = (i, x) # enumerate_from (i + 1) xs"

definition py_enumerate :: "'a list \<Rightarrow> (int \<times> 'a) list" where
  "py_enumerate xs = enumerate_from 0 xs"

text \<open>\<^verbatim>\<open>min(xs)\<close> of a list raises \<^verbatim>\<open>ValueError\<close> on the empty list.\<close>

fun py_min :: "int list \<Rightarrow> py_error + int" where
  "py_min [] = Inl ValueError"
| "py_min (x # xs) = Inr (foldl min x xs)"

text \<open>\<^verbatim>\<open>str.split(sep)\<close> with a one-character separator.\<close>

fun split_on :: "char \<Rightarrow> string \<Rightarrow> string list" where
  "split_on c [] = [[]]"
| "split_on c (x # xs) =
     (if x = c then [] # split_on c xs
      else (case split_on c xs of w # ws \<Rightarrow> (x # w) # ws | [] \<Rightarrow> [[x]]))"

section \<open>Segment\<close>

text \<open>
  Modelled from the spec: the class \<^verbatim>\<open>Segment\<close> (\<^verbatim>\<open>databricksx12/edi.py\<close>) is not among
  the source files. Sections 3, 4.1 and 6 of the specification describe it: a segment is
  an identifier, the value at position 0 of the raw tokenized segment, and an ordered list
  of elements addressed from 1; an element is split on the composite separator to get its
  sub-elements.
\<close>

record segment =
  seg_identifier :: string
  elements :: "string list"
  composite_sep :: char

text \<open>
  Modelled from the spec: the raw tokenized segment, the identifier at position 0.
\<close>

definition tokens :: "segment \<Rightarrow> string list" where
  "tokens s = seg_identifier s # elements s"

text \<open>
  Modelled from the spec: \<^verbatim>\<open>identifier()\<close> of section 4.1, called \<^verbatim>\<open>segment_name()\<close>
  by the source.
\<close>

definition segment_name :: "segment \<Rightarrow> string" where
  "segment_name s = seg_identifier s"

text \<open>
  Modelled from the spec: \<^verbatim>\<open>element(i)\<close>, ``default "" if i exceeds the element count
  or element is empty''.
\<close>

definition element :: "segment \<Rightarrow> nat \<Rightarrow> string" where
  "element s i = (if i < length (tokens s) then tokens s ! i else '''')"

text \<open>
  Modelled from the spec: \<^verbatim>\<open>element(i, j)\<close>, ``the j-th sub-element of a composite
  element at position i, default "" if i or j out of range''. The source counts
  sub-elements from 0 (\<^verbatim>\<open>p.element(3, 0)\<close> is the first one).
\<close>

definition element2 :: "segment \<Rightarrow> nat \<Rightarrow> nat \<Rightarrow> string" where
  "element2 s i j =
     (if i < length (tokens s)
      then (let subs = split_on (composite_sep s) (tokens s ! i)
            in if j < length subs then subs ! j else '''')
      else '''')"

text \<open>
  Modelled from the spec: \<^verbatim>\<open>length()\<close> of section 4.1, the ``count of elements''
  (the identifier is not an element).
\<close>

definition seg_length :: "segment \<Rightarrow> nat" where
  "seg_length s = length (elements s)"

text \<open>
  Modelled from the spec: \<^verbatim>\<open>segment_len()\<close> as section 4.6 uses it: a group is read
  ``only when the segment is long enough to contain that group's starting position
  (\<^verbatim>\<open>segment_len() > threshold\<close>)'', so it counts the positions of the raw tokenized
  segment, position 0 (the identifier) included.
\<close>

definition segment_len :: "segment \<Rightarrow> nat" where
  "segment_len s = length (tokens s)"

text \<open>
  Modelled from the spec: the sentinel ``empty segment'' of section 4.2, for which all
  \<^verbatim>\<open>element()\<close> calls yield "".
\<close>

definition empty_segment :: segment where
  "empty_segment = \<lparr>seg_identifier = '''', elements = [], composite_sep = CHR '':''\<rparr>"

section \<open>Segment stream navigator\<close>

text \<open>
  Modelled from the spec: \<^verbatim>\<open>segments_by_name\<close>, \<^verbatim>\<open>segments_by_name_index\<close>,
  \<^verbatim>\<open>index_of_segment\<close> and \<^verbatim>\<open>_first\<close> are methods of the base classes \<^verbatim>\<open>EDI\<close> and
  \<^verbatim>\<open>MedicalClaim\<close>, which are not among the source files. Section 4.2 of the
  specification describes them: all matching segments in document order (with their
  positions for the indexed variant); the first position at or after \<open>from_index\<close> that
  matches, or the sequence length if there is none; the first matching segment from
  \<open>from_index\<close>, or the empty segment.
\<close>

definition segments_by_name :: "string \<Rightarrow> segment list \<Rightarrow> segment list" where
  "segments_by_name name segs = filter (\<lambda>x. segment_name x = name) segs"

definition segments_by_name_index :: "string \<Rightarrow> segment list \<Rightarrow> (int \<times> segment) list" where
  "segments_by_name_index name segs =
     filter (\<lambda>(i, x). segment_name x = name) (py_enumerate segs)"

definition index_of_segment :: "segment list \<Rightarrow> string \<Rightarrow> int \<Rightarrow> int" where
  "index_of_segment segs name from_index =
     (case filter (\<lambda>(i, x). segment_name x = name \<and> from_index \<le> i) (py_enumerate segs) of
        [] \<Rightarrow> int (length segs)
      | (i, x) # rest \<Rightarrow> i)"

definition first_seg :: "segment list \<Rightarrow> string \<Rightarrow> int \<Rightarrow> segment" where
  "first_seg segs name start_index =
     (case filter (\<lambda>x. segment_name x = name) (py_slice_from segs start_index) of
        [] \<Rightarrow> empty_segment
      | x # rest \<Rightarrow> x)"

section \<open>Remittance: the repeating-group unpackers\<close>

text \<open>
  \<^verbatim>\<open>Remittance.populate_adjustment_groups\<close> (remittance.py, lines 510-534): a list
  holding one dict, the group code and six (reason, amount, quantity) triples.
\<close>

definition populate_adjustment_groups :: "segment \<Rightarrow> pyval list" where
  "populate_adjustment_groups cas =
     (let group_code = element cas 1 in
      [PDict [
        (''adjustment_grp_cd'', PStr group_code),
        (''adjustment_reason_cd_1'', PStr (element cas 2)),
        (''adjustment_amount_1'', PStr (element cas 3)),
        (''adjustment_quantity_1'', PStr (element cas 4)),
        (''adjustment_reason_cd_2'', PStr (element cas 5)),
        (''adjustment_amount_2'', PStr (element cas 6)),
        (''adjustment_quantity_2'', PStr (element cas 7)),
        (''adjustment_reason_cd_3'', PStr (element cas 8)),
        (''adjustment_amount_3'', PStr (element cas 9)),
        (''adjustment_quantity_3'', PStr (element cas 10)),
        (''adjustment_reason_cd_4'', PStr (element cas 11)),
        (''adjustment_amount_4'', PStr (element cas 12)),
        (''adjustment_quantity_4'', PStr (element cas 13)),
        (''adjustment_reason_cd_5'', PStr (element cas 14)),
        (''adjustment_amount_5'', PStr (element cas 15)),
        (''adjustment_quantity_5'', PStr (element cas 16)),
        (''adjustment_reason_cd_6'', PStr (element cas 17)),
        (''adjustment_amount_6'', PStr (element cas 18)),
        (''adjustment_quantity_6'', PStr (element cas 19))]])"

text \<open>
  \<^verbatim>\<open>Remittance.populate_plb_loop\<close> (remittance.py, lines 95-126): one dict per PLB segment
  of the transaction summary loop. \<^verbatim>\<open>functools.reduce\<close> is called without a start value
  on the two-element list made of the list of dicts and \<^verbatim>\<open>[]\<close>, so it applies the
  lambda once, to these two.
\<close>

definition plb_entry :: "segment \<Rightarrow> pyval" where
  "plb_entry p =
     PDict [
        (''provider_identifier'', PStr (element p 1)),
        (''fiscal_period_date'', PStr (element p 2)),
        (''provider_adjustment_reason_cd_1'', if segment_len p > 3 then PStr (element2 p 3 0) else PNone),
        (''provider_adjustment_id_1'', if segment_len p > 3 then PStr (element2 p 3 1) else PNone),
        (''provider_adjustment_amt_1'', if segment_len p > 4 then PStr (element p 4) else PNone),
        (''provider_adjustment_reason_cd_2'', if segment_len p > 5 then PStr (element2 p 5 0) else PNone),
        (''provider_adjustment_id_2'', if segment_len p > 5 then PStr (element2 p 5 1) else PNone),
        (''provider_adjustment_amt_2'', if segment_len p > 6 then PStr (element p 6) else PNone),
        (''provider_adjustment_reason_cd_3'', if segment_len p > 7 then PStr (element2 p 7 0) else PNone),
        (''provider_adjustment_id_3'', if segment_len p > 7 then PStr (element2 p 7 1) else PNone),
        (''provider_adjustment_amt_3'', if segment_len p > 8 then PStr (element p 8) else PNone),
        (''provider_adjustment_reason_cd_4'', if segment_len p > 9 then PStr (element2 p 9 0) else PNone),
        (''provider_adjustment_id_4'', if segment_len p > 9 then PStr (element2 p 9 1) else PNone),
        (''provider_adjustment_amt_4'', if segment_len p > 10 then PStr (element p 10) else PNone),
        (''provider_adjustment_reason_cd_5'', if segment_len p > 11 then PStr (element2 p 11 0) else PNone),
        (''provider_adjustment_id_5'', if segment_len p > 11 then PStr (element2 p 11 1) else PNone),
        (''provider_adjustment_amt_5'', if segment_len p > 12 then PStr (element p 12) else PNone),
        (''provider_adjustment_reason_cd_6'', if segment_len p > 13 then PStr (element2 p 13 0) else PNone),
        (''provider_adjustment_id_6'', if segment_len p > 13 then PStr (element2 p 13 1) else PNone),
        (''provider_adjustment_amt_6'', if segment_len p > 14 then PStr (element p 14) else PNone)]"

definition populate_plb_loop :: "segment list \<Rightarrow> pyval" where
  "populate_plb_loop trx_summary_loop =
     PList ((\<lambda>x y. x @ y)
       (map plb_entry (segments_by_name ''PLB'' trx_summary_loop))
       [])"

section \<open>Remittance: the fixed-position projections\<close>

text \<open>\<^verbatim>\<open>Remittance.populate_header_loop\<close> (remittance.py, lines 39-92).\<close>

definition populate_header_loop :: "segment list \<Rightarrow> pyval" where
  "populate_header_loop header_number_loop =
     PDict [
        (''assigned_num'', PStr (element (first_seg header_number_loop ''LX'' 0) 1)),
        (''ts3'', PDict [
        (''provider_identifier'', PStr (element (first_seg header_number_loop ''TS3'' 0) 1)),
        (''facility_code_value'', PStr (element (first_seg header_number_loop ''TS3'' 0) 2)),
        (''fiscal_period_date'', PStr (element (first_seg header_number_loop ''TS3'' 0) 3)),
        (''total_claim_count'', PStr (element (first_seg header_number_loop ''TS3'' 0) 4)),
        (''total_claim_change_amount'', PStr (element (first_seg header_number_loop ''TS3'' 0) 5)),
        (''total_covered_charge_amount'', PStr (element (first_seg header_number_loop ''TS3'' 0) 6)),
        (''total_noncovered_charge_amount'', PStr (element (first_seg header_number_loop ''TS3'' 0) 7)),
        (''total_denied_charge_amount'', PStr (element (first_seg header_number_loop ''TS3'' 0) 8)),
        (''total_provider_amount'', PStr (element (first_seg header_number_loop ''TS3'' 0) 9)),
        (''total_interest_amount'', PStr (element (first_seg header_number_loop ''TS3'' 0) 10)),
        (''total_contractual_adjustment_amount'', PStr (element (first_seg header_number_loop ''TS3'' 0) 11)),
        (''total_gramm_rudman_reduction_amount'', PStr (element (first_seg header_number_loop ''TS3'' 0) 12)),
        (''total_msp_payer_amount'', PStr (element (first_seg header_number_loop ''TS3'' 0) 13)),
        (''total_blood_deductible_amount'', PStr (element (first_seg header_number_loop ''TS3'' 0) 14)),
        (''total_non_lab_charge_amount'', PStr (element (first_seg header_number_loop ''TS3'' 0) 15)),
        (''total_coinsurance_amount'', PStr (element (first_seg header_number_loop ''TS3'' 0) 16)),
        (''total_hcpcs_reported_charge_amount'', PStr (element (first_seg header_number_loop ''TS3'' 0) 17)),
        (''total_hcpcs_payable_amount'', PStr (element (first_seg header_number_loop ''TS3'' 0) 18)),
        (''total_deductible_amount'', PStr (element (first_seg header_number_loop ''TS3'' 0) 19)),
        (''total_professional_component_amount'', PStr (element (first_seg header_number_loop ''TS3'' 0) 20)),
        (''total_msp_patient_liability_met_amount'', PStr (element (first_seg header_number_loop ''TS3'' 0) 21)),
        (''total_patient_reimbursement_amount'', PStr (element (first_seg header_number_loop ''TS3'' 0) 22)),
        (''total_pip_claim_count'', PStr (element (first_seg header_number_loop ''TS3'' 0) 23)),
        (''total_pip_adjustment_amount'', PStr (element (first_seg header_number_loop ''TS3'' 0) 24))]),
        (''ts2'', PDict [
        (''total_drg_amount'', PStr (element (first_seg header_number_loop ''TS2'' 0) 1)),
        (''total_federal_specific_amount'', PStr (element (first_seg header_number_loop ''TS2'' 0) 2)),
        (''total_hospital_specific_amount'', PStr (element (first_seg header_number_loop ''TS2'' 0) 3)),
        (''total_disproportionate_amount'', PStr (element (first_seg header_number_loop ''TS2'' 0) 4)),
        (''total_capital_amount'', PStr (element (first_seg header_number_loop ''TS2'' 0) 5)),
        (''total_indirect_medical_education_amount'', PStr (element (first_seg header_number_loop ''TS2'' 0) 6)),
        (''total_outlier_day_count'', PStr (element (first_seg header_number_loop ''TS2'' 0) 7)),
        (''total_day_outlier_amount'', PStr (element (first_seg header_number_loop ''TS2'' 0) 8)),
        (''total_cost_outlier_amount'', PStr (element (first_seg header_number_loop ''TS2'' 0) 9)),
        (''average_drg_length_of_stay'', PStr (element (first_seg header_number_loop ''TS2'' 0) 10)),
        (''total_discharge_count'', PStr (element (first_seg header_number_loop ''TS2'' 0) 11)),
        (''total_cost_report_day_count'', PStr (element (first_seg header_number_loop ''TS2'' 0) 12)),
        (''total_covered_day_count'', PStr (element (first_seg header_number_loop ''TS2'' 0) 13)),
        (''total_noncovered_day_count'', PStr (element (first_seg header_number_loop ''TS2'' 0) 14)),
        (''total_msp_pass_through_amount'', PStr (element (first_seg header_number_loop ''TS2'' 0) 15)),
        (''average_drg_weight'', PStr (element (first_seg header_number_loop ''TS2'' 0) 16)),
        (''total_pps_capital_fsp_drg_amount'', PStr (element (first_seg header_number_loop ''TS2'' 0) 17)),
        (''total_psp_capital_hsp_drg_amount'', PStr (element (first_seg header_number_loop ''TS2'' 0) 18)),
        (''total_pps_dsh_drg_amount'', PStr (element (first_seg header_number_loop ''TS2'' 0) 19))])]"

text \<open>\<^verbatim>\<open>Remittance.populate_payer_loop\<close> (remittance.py, lines 130-167).\<close>

definition populate_payer_loop :: "segment list \<Rightarrow> pyval" where
  "populate_payer_loop payer_loop =
     PDict [
        (''entity_identifier_code'', PStr (element (first_seg payer_loop ''N1'' 0) 1)),
        (''payer_name'', PStr (element (first_seg payer_loop ''N1'' 0) 2)),
        (''id_code_qualifier'', PStr (element (first_seg payer_loop ''N1'' 0) 3)),
        (''payer_identifier'', PStr (element (first_seg payer_loop ''N1'' 0) 4)),
        (''entity_relationship_code'', PStr (element (first_seg payer_loop ''N1'' 0) 5)),
        (''payer_address_line_1'', PStr (element (first_seg payer_loop ''N3'' 0) 1)),
        (''payer_address_line_2'', PStr (element (first_seg payer_loop ''N3'' 0) 2)),
        (''payer_city_name'', PStr (element (first_seg payer_loop ''N4'' 0) 1)),
        (''payer_state_code'', PStr (element (first_seg payer_loop ''N4'' 0) 2)),
        (''payer_postal_zone_or_zip_code'', PStr (element (first_seg payer_loop ''N4'' 0) 3)),
        (''country_code'', PStr (element (first_seg payer_loop ''N4'' 0) 4)),
        (''location_qualifier'', PStr (element (first_seg payer_loop ''N4'' 0) 5)),
        (''country_subdivision_code'', PStr (element (first_seg payer_loop ''N4'' 0) 7)),
        (''payer_contact_info'', PList (map (\<lambda>c. PDict [
        (''contact_function_cd'', PStr (element c 1)),
        (''contact_name'', PStr (element c 2)),
        (''communication_number_qualifier1'', PStr (element c 3)),
        (''contact_communication1'', PStr (element c 4)),
        (''communication_number_qualifier2'', PStr (element c 5)),
        (''contact_communication2'', PStr (element c 6)),
        (''communication_number_qualifier3'', PStr (element c 7)),
        (''contact_communication3'', PStr (element c 8)),
        (''contact_inquiry_reference'', PStr (element c 9))])
          (segments_by_name ''PER'' payer_loop))),
        (''payer_additional_identification'', PList (map (\<lambda>c. PDict [
        (''id_qualifier_code'', PStr (element c 1)),
        (''id'', PStr (element c 2)),
        (''description'', PStr (element c 3))])
          (segments_by_name ''REF'' payer_loop)))]"

text \<open>\<^verbatim>\<open>Remittance.populate_payee_loop\<close> (remittance.py, lines 169-196).\<close>

definition populate_payee_loop :: "segment list \<Rightarrow> pyval" where
  "populate_payee_loop payee_loop =
     PDict [
        (''entity_identifier_code'', PStr (element (first_seg payee_loop ''N1'' 0) 1)),
        (''payee_name'', PStr (element (first_seg payee_loop ''N1'' 0) 2)),
        (''id_code_qualifier'', PStr (element (first_seg payee_loop ''N1'' 0) 3)),
        (''payee_identifier'', PStr (element (first_seg payee_loop ''N1'' 0) 4)),
        (''entity_relationship_code'', PStr (element (first_seg payee_loop ''N1'' 0) 5)),
        (''payee_address_line_1'', PStr (element (first_seg payee_loop ''N3'' 0) 1)),
        (''payee_address_line_2'', PStr (element (first_seg payee_loop ''N3'' 0) 2)),
        (''payee_city_name'', PStr (element (first_seg payee_loop ''N4'' 0) 1)),
        (''payee_state_code'', PStr (element (first_seg payee_loop ''N4'' 0) 2)),
        (''payee_postal_zone_or_zip_code'', PStr (element (first_seg payee_loop ''N4'' 0) 3)),
        (''country_code'', PStr (element (first_seg payee_loop ''N4'' 0) 4)),
        (''location_qualifier'', PStr (element (first_seg payee_loop ''N4'' 0) 5)),
        (''country_subdivision_code'', PStr (element (first_seg payee_loop ''N4'' 0) 7)),
        (''payee_additional_identification'', PList (map (\<lambda>c. PDict [
        (''id_qualifier_code'', PStr (element c 1)),
        (''id'', PStr (element c 2)),
        (''description'', PStr (element c 3))])
          (segments_by_name ''REF'' payee_loop))),
        (''delivery_report_transmission_code'', PStr (element (first_seg payee_loop ''RDM'' 0) 1)),
        (''delivery_name'', PStr (element (first_seg payee_loop ''RDM'' 0) 2)),
        (''delivery_communication_number'', PStr (element (first_seg payee_loop ''RDM'' 0) 3)),
        (''delivery_reference_identifier'', PStr (element (first_seg payee_loop ''RDM'' 0) 4))]"

text \<open>\<^verbatim>\<open>Remittance.populate_trx_loop\<close> (remittance.py, lines 198-230).\<close>

definition populate_trx_loop :: "segment list \<Rightarrow> pyval" where
  "populate_trx_loop trx_header_loop =
     PDict [
        (''dtm'', PDict [
        (''date_code'', PStr (element (first_seg trx_header_loop ''DTM'' 0) 1)),
        (''date'', PStr (element (first_seg trx_header_loop ''DTM'' 0) 2)),
        (''time'', PStr (element (first_seg trx_header_loop ''DTM'' 0) 3))]),
        (''bpr'', PDict [
        (''transaction_handling_code'', PStr (element (first_seg trx_header_loop ''BPR'' 0) 1)),
        (''total_actual_provider_payment_amt'', PStr (element (first_seg trx_header_loop ''BPR'' 0) 2)),
        (''creditor_debit_flag_code'', PStr (element (first_seg trx_header_loop ''BPR'' 0) 3)),
        (''payment_method_code'', PStr (element (first_seg trx_header_loop ''BPR'' 0) 4)),
        (''payment_format_code'', PStr (element (first_seg trx_header_loop ''BPR'' 0) 5)),
        (''sender_dfiid_number_qualifier'', PStr (element (first_seg trx_header_loop ''BPR'' 0) 6)),
        (''sender_dfi_identifier'', PStr (element (first_seg trx_header_loop ''BPR'' 0) 7)),
        (''sender_account_number_qualifier'', PStr (element (first_seg trx_header_loop ''BPR'' 0) 8)),
        (''sender_bank_acct_number'', PStr (element (first_seg trx_header_loop ''BPR'' 0) 9)),
        (''payer_identifier'', PStr (element (first_seg trx_header_loop ''BPR'' 0) 10)),
        (''payer_originating_co_supplemental_code'', PStr (element (first_seg trx_header_loop ''BPR'' 0) 11)),
        (''receiver_dfiid_number_qualifier'', PStr (element (first_seg trx_header_loop ''BPR'' 0) 12)),
        (''receiver_or_provider_bank_id_number'', PStr (element (first_seg trx_header_loop ''BPR'' 0) 13)),
        (''receiver_acct_number_qualifier'', PStr (element (first_seg trx_header_loop ''BPR'' 0) 14)),
        (''receiver_or_provider_account_number'', PStr (element (first_seg trx_header_loop ''BPR'' 0) 15)),
        (''check_issue_or_eft_effective_date'', PStr (element (first_seg trx_header_loop ''BPR'' 0) 16)),
        (''business_function_code'', PStr (element (first_seg trx_header_loop ''BPR'' 0) 17))]),
        (''trn'', PDict [
        (''trace_type_code'', PStr (element (first_seg trx_header_loop ''TRN'' 0) 1)),
        (''check_or_eft_trace_number'', PStr (element (first_seg trx_header_loop ''TRN'' 0) 2)),
        (''trace_payer_identifier'', PStr (element (first_seg trx_header_loop ''TRN'' 0) 3)),
        (''trace_payer_originating_co_supplemental_code'', PStr (element (first_seg trx_header_loop ''TRN'' 0) 4))])]"

section \<open>Remittance: the claim loop\<close>

text \<open>\<^verbatim>\<open>Remittance._populate_names\<close> (remittance.py, lines 406-422).\<close>

definition populate_names :: "segment list \<Rightarrow> pyval list" where
  "populate_names loop =
     map (\<lambda>x. PDict [
        (''entity_identifier_code'', PStr (element x 1)),
        (''entity_type_qualifier'', PStr (element x 2)),
        (''last_name_or_organization'', PStr (element x 3)),
        (''first_name'', PStr (element x 4)),
        (''middle_name'', PStr (element x 5)),
        (''name_prefix'', PStr (element x 6)),
        (''name_suffix'', PStr (element x 7)),
        (''id_code_qualifier'', PStr (element x 8)),
        (''identifier'', PStr (element x 9)),
        (''entity_relationship_code'', PStr (element x 10))])
       (filter (\<lambda>x. segment_name x = ''NM1'') loop)"

text \<open>
  \<^verbatim>\<open>Remittance.populate_claim_line\<close> (remittance.py, lines 429-492): \<open>svc\<close> is the SVC
  segment, \<open>idx\<close> its index in the claim loop and \<open>svc_end_idx\<close> the end of the slice
  the line's repeatable groups are read from. \<^verbatim>\<open>functools.reduce\<close> with the start
  value \<^verbatim>\<open>[]\<close> is a left fold.
\<close>

definition populate_claim_line :: "segment list \<Rightarrow> segment \<Rightarrow> int \<Rightarrow> int \<Rightarrow> pyval" where
  "populate_claim_line clm_loop svc idx svc_end_idx =
     PDict [
        (''claim_line_details'', PDict [
        (''prcdr_cd'', PStr (element svc 1)),
        (''chrg_amt'', PStr (element svc 2)),
        (''paid_amt'', PStr (element svc 3)),
        (''rev_cd'', PStr (element svc 4)),
        (''units'', PStr (element svc 5)),
        (''original_prcdr_cd'', PStr (element svc 6)),
        (''original_units_of_service_count'', PStr (element svc 7))]),
        (''claim_line_dates'', PDict [
        (''date_code'', PStr (element (first_seg clm_loop ''DTM'' idx) 1)),
        (''date'', PStr (element (first_seg clm_loop ''DTM'' idx) 2)),
        (''time'', PStr (element (first_seg clm_loop ''DTM'' idx) 3))]),
        (''claim_line_supplemental_amount'', PList (map (\<lambda>a. PDict [
        (''amt_qualifier_cd'', PStr (element a 1)),
        (''amt'', PStr (element a 2)),
        (''credit_debit_flag_code'', PStr (element a 3))])
          (segments_by_name ''AMT'' (py_slice clm_loop idx svc_end_idx)))),
        (''claim_line_supplemental_quantity'', PList (map (\<lambda>a. PDict [
        (''quantity_qualifier'', PStr (element a 1)),
        (''qty'', PStr (element a 2)),
        (''composite_unit_of_measure'', PStr (element a 3))])
          (segments_by_name ''AMT'' (py_slice clm_loop idx svc_end_idx)))),
        (''claim_line_remarks'', PList (map (\<lambda>x. PDict [
        (''qualifier_cd'', PStr (element x 1)),
        (''remark_cd'', PStr (element x 2))])
          (segments_by_name ''LQ'' (py_slice clm_loop idx svc_end_idx)))),
        (''claim_line_adjustments'', PList (foldl (\<lambda>x y. x @ y) []
          (map (\<lambda>x. populate_adjustment_groups x)
            (segments_by_name ''CAS'' (py_slice clm_loop idx svc_end_idx))))),
        (''claim_line_related_identifications'', PList (map (\<lambda>x. PDict [
        (''id_code_qualifier'', PStr (element x 1)),
        (''id'', PStr (element x 2)),
        (''description'', PStr (element x 3))])
          (segments_by_name ''REF'' (py_slice clm_loop idx svc_end_idx))))]"

text \<open>
  The local \<^verbatim>\<open>end_clp_index\<close> of \<^verbatim>\<open>populate_claim_loop\<close> (remittance.py, lines
  233-240): the first position of a CLP in \<^verbatim>\<open>clm_loop[1:]\<close>, counted within that slice,
  or the length of the loop. The list indexed with \<^verbatim>\<open>[0]\<close> always ends with that length,
  so it is never empty.
\<close>

definition end_clp_index :: "segment list \<Rightarrow> int" where
  "end_clp_index clm_loop =
     hd (map fst (filter (\<lambda>(i, z). z = ''CLP'')
                    (py_enumerate (map segment_name (py_slice_from clm_loop 1))))
         @ [int (length clm_loop)])"

text \<open>
  The value of the key \<^verbatim>\<open>claim_adjustments\<close> (remittance.py, lines 359-381): the
  adjustment groups of the CAS segments of \<^verbatim>\<open>clm_loop[1 : m]\<close>, where \<open>m\<close> is the
  least non-negative number among the index of the first SVC and \<^verbatim>\<open>len(clm_loop) - 1\<close>.
  \<^verbatim>\<open>min\<close> raises on an empty list.
\<close>

definition claim_adjustments :: "segment list \<Rightarrow> py_error + pyval list" where
  "claim_adjustments clm_loop =
     (case py_min (filter (\<lambda>x. x \<ge> 0)
                     [index_of_segment clm_loop ''SVC'' 0, int (length clm_loop) - 1]) of
        Inl err \<Rightarrow> Inl err
      | Inr m \<Rightarrow>
          Inr (foldl (\<lambda>x y. x @ y) []
                 (map (\<lambda>x. populate_adjustment_groups x)
                    (segments_by_name ''CAS'' (py_slice clm_loop 1 m)))))"

text \<open>
  The value of the key \<^verbatim>\<open>claim_lines\<close> (remittance.py, lines 382-394): one claim line
  per SVC segment of the loop, read from the SVC's index up to the lesser of the next
  SVC's index and \<^verbatim>\<open>len(clm_loop) - 1\<close>.
\<close>

definition claim_lines :: "segment list \<Rightarrow> pyval list" where
  "claim_lines clm_loop =
     map (\<lambda>(i, seg).
            populate_claim_line clm_loop seg i
              (min (index_of_segment clm_loop ''SVC'' (i + 1)) (int (length clm_loop) - 1)))
         (segments_by_name_index ''SVC'' clm_loop)"

text \<open>
  \<^verbatim>\<open>Remittance.populate_claim_loop\<close> (remittance.py, lines 232-404). The only step that
  can raise is the \<^verbatim>\<open>min\<close> of \<^verbatim>\<open>claim_adjustments\<close>; its error is the function's.
\<close>

definition populate_claim_loop :: "segment list \<Rightarrow> py_error + pyval" where
  "populate_claim_loop clm_loop =
     (case claim_adjustments clm_loop of
        Inl err \<Rightarrow> Inl err
      | Inr adjustments \<Rightarrow> Inr (PDict [
        (''clp'', PDict [
        (''patient_control_number'', PStr (element (first_seg clm_loop ''CLP'' 0) 1)),
        (''claim_status_code'', PStr (element (first_seg clm_loop ''CLP'' 0) 2)),
        (''total_claim_charge_amount'', PStr (element (first_seg clm_loop ''CLP'' 0) 3)),
        (''claim_payment_amount'', PStr (element (first_seg clm_loop ''CLP'' 0) 4)),
        (''patient_responsibility_amount'', PStr (element (first_seg clm_loop ''CLP'' 0) 5)),
        (''claim_filing_indicator_code'', PStr (element (first_seg clm_loop ''CLP'' 0) 6)),
        (''payer_claim_control_number'', PStr (element (first_seg clm_loop ''CLP'' 0) 7)),
        (''facility_code_value'', PStr (element (first_seg clm_loop ''CLP'' 0) 8)),
        (''claim_frequency_code'', PStr (element (first_seg clm_loop ''CLP'' 0) 9)),
        (''patient_status_code'', PStr (element (first_seg clm_loop ''CLP'' 0) 10)),
        (''drg_code'', PStr (element (first_seg clm_loop ''CLP'' 0) 11)),
        (''drg_weight'', PStr (element (first_seg clm_loop ''CLP'' 0) 12)),
        (''discharge_fraction'', PStr (element (first_seg clm_loop ''CLP'' 0) 13)),
        (''yes_no_condition_or_response_code'', PStr (element (first_seg clm_loop ''CLP'' 0) 14))]),
        (''first_nm1_patient'', PDict [
        (''entity_identifier_code'', PStr (element (first_seg clm_loop ''NM1'' 0) 1)),
        (''entity_type_qualifier'', PStr (element (first_seg clm_loop ''NM1'' 0) 2)),
        (''last_name_or_organization'', PStr (element (first_seg clm_loop ''NM1'' 0) 3)),
        (''first_name'', PStr (element (first_seg clm_loop ''NM1'' 0) 4)),
        (''middle_name'', PStr (element (first_seg clm_loop ''NM1'' 0) 5)),
        (''name_prefix'', PStr (element (first_seg clm_loop ''NM1'' 0) 6)),
        (''name_suffix'', PStr (element (first_seg clm_loop ''NM1'' 0) 7)),
        (''id_code_qualifier'', PStr (element (first_seg clm_loop ''NM1'' 0) 8)),
        (''identifier'', PStr (element (first_seg clm_loop ''NM1'' 0) 9)),
        (''entity_relationship_code'', PStr (element (first_seg clm_loop ''NM1'' 0) 10))]),
        (''claim_names'', PList (populate_names (py_slice_to clm_loop (end_clp_index clm_loop)))),
        (''claim_contacts'', PList (map (\<lambda>c. PDict [
        (''contact_function_cd'', PStr (element c 1)),
        (''contact_name'', PStr (element c 2)),
        (''communication_number_qualifier1'', PStr (element c 3)),
        (''contact_communication1'', PStr (element c 4)),
        (''communication_number_qualifier2'', PStr (element c 5)),
        (''contact_communication2'', PStr (element c 6)),
        (''communication_number_qualifier3'', PStr (element c 7)),
        (''contact_communication3'', PStr (element c 8)),
        (''contact_inquiry_reference'', PStr (element c 9))])
          (segments_by_name ''PER''
             (py_slice_to clm_loop (index_of_segment clm_loop ''SVC'' 0))))),
        (''mia'', PDict [
        (''covered_days_or_visits_count'', PStr (element (first_seg clm_loop ''MIA'' 0) 1)),
        (''pps_operation_outlier_amount'', PStr (element (first_seg clm_loop ''MIA'' 0) 2)),
        (''lifetime_psychiatric_days_count'', PStr (element (first_seg clm_loop ''MIA'' 0) 3)),
        (''claim_drg_amount'', PStr (element (first_seg clm_loop ''MIA'' 0) 4)),
        (''claim_payment_remark_code'', PStr (element (first_seg clm_loop ''MIA'' 0) 5)),
        (''claim_dsh_amount'', PStr (element (first_seg clm_loop ''MIA'' 0) 6)),
        (''claim_msp_pass_thru_amount'', PStr (element (first_seg clm_loop ''MIA'' 0) 7)),
        (''claim_pps_capital_amount'', PStr (element (first_seg clm_loop ''MIA'' 0) 8)),
        (''pps_capital_fsp_drg_amount'', PStr (element (first_seg clm_loop ''MIA'' 0) 9)),
        (''pps_capital_hsp_drg_amount'', PStr (element (first_seg clm_loop ''MIA'' 0) 10)),
        (''pps_capital_dsh_drg_amount'', PStr (element (first_seg clm_loop ''MIA'' 0) 11)),
        (''old_capital_amount'', PStr (element (first_seg clm_loop ''MIA'' 0) 12)),
        (''pps_capital_ime_amount'', PStr (element (first_seg clm_loop ''MIA'' 0) 13)),
        (''pps_oper_hsp_spec_drg_amount'', PStr (element (first_seg clm_loop ''MIA'' 0) 14)),
        (''cost_report_day_count'', PStr (element (first_seg clm_loop ''MIA'' 0) 15)),
        (''pps_oper_fsp_spec_drg_amount'', PStr (element (first_seg clm_loop ''MIA'' 0) 16)),
        (''claim_pps_outlier_amount'', PStr (element (first_seg clm_loop ''MIA'' 0) 17)),
        (''claim_indirect_teaching'', PStr (element (first_seg clm_loop ''MIA'' 0) 18)),
        (''non_pay_prof_comp_amount'', PStr (element (first_seg clm_loop ''MIA'' 0) 19)),
        (''inpatient_claim_payment_remark_code_1'', PStr (element (first_seg clm_loop ''MIA'' 0) 20)),
        (''inpatient_claim_payment_remark_code_2'', PStr (element (first_seg clm_loop ''MIA'' 0) 21)),
        (''inpatient_claim_payment_remark_code_3'', PStr (element (first_seg clm_loop ''MIA'' 0) 22)),
        (''inpatient_claim_payment_remark_code_4'', PStr (element (first_seg clm_loop ''MIA'' 0) 23)),
        (''pps_capital_exception_amount'', PStr (element (first_seg clm_loop ''MIA'' 0) 24))]),
        (''moa'', PDict [
        (''reimbursement_rate'', PStr (element (first_seg clm_loop ''MOA'' 0) 1)),
        (''claim_hcpcs_payable_amount'', PStr (element (first_seg clm_loop ''MOA'' 0) 2)),
        (''outpatient_claim_payment_remark_code_1'', PStr (element (first_seg clm_loop ''MOA'' 0) 3)),
        (''outpatient_claim_payment_remark_code_2'', PStr (element (first_seg clm_loop ''MOA'' 0) 4)),
        (''outpatient_claim_payment_remark_code_3'', PStr (element (first_seg clm_loop ''MOA'' 0) 5)),
        (''outpatient_claim_payment_remark_code_4'', PStr (element (first_seg clm_loop ''MOA'' 0) 6)),
        (''outpatient_claim_payment_remark_code_5'', PStr (element (first_seg clm_loop ''MOA'' 0) 7)),
        (''claim_esrd_payment_amount'', PStr (element (first_seg clm_loop ''MOA'' 0) 8)),
        (''non_payable_professional_comp_amount'', PStr (element (first_seg clm_loop ''MOA'' 0) 9))]),
        (''claim_related_identifications'', PList (map (\<lambda>x. PDict [
        (''id_qualifier_code'', PStr (element x 1)),
        (''id'', PStr (element x 2)),
        (''description'', PStr (element x 3))])
          (segments_by_name ''REF''
             (py_slice_to clm_loop (index_of_segment clm_loop ''SVC'' 0))))),
        (''claim_supplemental_amount'', PList (map (\<lambda>x. PDict [
        (''amount_qualifier_code'', PStr (element x 1)),
        (''amt'', PStr (element x 2)),
        (''credit_debit_flag_code'', PStr (element x 3))])
          (segments_by_name ''AMT''
             (py_slice_to clm_loop (index_of_segment clm_loop ''SVC'' 0))))),
        (''claim_supplemental_quantity'', PList (map (\<lambda>x. PDict [
        (''quantity_qualifier_code'', PStr (element x 1)),
        (''qty'', PStr (element x 2)),
        (''composite_unit_of_measure'', PStr (element x 3))])
          (segments_by_name ''QTY''
             (py_slice_to clm_loop (index_of_segment clm_loop ''SVC'' 0))))),
        (''claim_adjustments'', PList adjustments),
        (''claim_lines'', PList (claim_lines clm_loop)),
        (''claim_dates'', PList (map (\<lambda>x. PDict [
        (''date_code'', PStr (element x 1)),
        (''date'', PStr (element x 2)),
        (''time'', PStr (element x 3))])
          (filter (\<lambda>x. segment_name x = ''DTM'') clm_loop)))]))"

section \<open>Remittance: construction and output\<close>

text \<open>
  The object after \<^verbatim>\<open>Remittance.__init__\<close> (remittance.py, lines 13-36): the six loops
  it was given and the six sub-records \<^verbatim>\<open>build\<close> computes from them.
\<close>

record remittance =
  trx_header_loop :: "segment list"
  payer_loop :: "segment list"
  payee_loop :: "segment list"
  clm_loop :: "segment list"
  trx_summary_loop :: "segment list"
  header_number_loop :: "segment list"
  trx_header_info :: pyval
  payer_info :: pyval
  payee_info :: pyval
  clm_info :: pyval
  plb_info :: pyval
  header_info :: pyval

definition Remittance_init ::
  "segment list \<Rightarrow> segment list \<Rightarrow> segment list \<Rightarrow> segment list \<Rightarrow> segment list
     \<Rightarrow> segment list \<Rightarrow> py_error + remittance" where
  "Remittance_init trx_header payer payee clm trx_summary header_number =
     (case populate_claim_loop clm of
        Inl err \<Rightarrow> Inl err
      | Inr claim \<Rightarrow>
          Inr \<lparr>trx_header_loop = trx_header,
               payer_loop = payer,
               payee_loop = payee,
               clm_loop = clm,
               trx_summary_loop = trx_summary,
               header_number_loop = header_number,
               trx_header_info = populate_trx_loop trx_header,
               payer_info = populate_payer_loop payer,
               payee_info = populate_payee_loop payee,
               clm_info = claim,
               plb_info = populate_plb_loop trx_summary,
               header_info = populate_header_loop header_number\<rparr>)"

text \<open>\<^verbatim>\<open>Remittance.to_json\<close> (remittance.py, lines 536-544): six one-item dicts merged.\<close>

definition to_json :: "remittance \<Rightarrow> pyval" where
  "to_json self =
     PDict (foldl dict_merge []
       [[(''payment'', trx_header_info self)],
        [(''payer'', payer_info self)],
        [(''payee'', payee_info self)],
        [(''claim'', clm_info self)],
        [(''provider_adjustments'', plb_info self)],
        [(''header_info'', header_info self)]])"

section \<open>Transaction\<close>

text \<open>
  \<^verbatim>\<open>Transaction\<close> (transaction.py, lines 44-64). The three header fields start as
  \<^verbatim>\<open>None\<close>; \<^verbatim>\<open>_parse_st_segment\<close> walks the segments and stops at the first one named
  ST.
\<close>

record ('f, 't) transaction =
  data :: "segment list"
  format_cls :: 'f
  transaction_type :: 't
  transaction_set_identifier_code :: "string option"
  transaction_set_control_number :: "string option"
  implementation_convention_reference :: "string option"

fun parse_st_segment_loop ::
  "segment list \<Rightarrow> ('f, 't) transaction \<Rightarrow> ('f, 't) transaction" where
  "parse_st_segment_loop [] self = self"
| "parse_st_segment_loop (segment # rest) self =
     (if segment_name segment = ''ST''
      then self\<lparr>transaction_set_identifier_code := Some (element segment 1),
                transaction_set_control_number := Some (element segment 2),
                implementation_convention_reference := Some (element segment 3)\<rparr>
      else parse_st_segment_loop rest self)"

definition parse_st_segment :: "('f, 't) transaction \<Rightarrow> ('f, 't) transaction" where
  "parse_st_segment self = parse_st_segment_loop (data self) self"

definition Transaction_init :: "segment list \<Rightarrow> 'f \<Rightarrow> 't \<Rightarrow> ('f, 't) transaction" where
  "Transaction_init segments delim_cls trx_type =
     parse_st_segment
       \<lparr>data = segments,
        format_cls = delim_cls,
        transaction_type = trx_type,
        transaction_set_identifier_code = None,
        transaction_set_control_number = None,
        implementation_convention_reference = None\<rparr>"

section \<open>Vocabulary of the statements and example segments\<close>



text \<open>Segments of a small 835 document, used to run the definitions.\<close>

definition ex_st :: segment where
  "ex_st = \<lparr>seg_identifier = ''ST'', elements = [''835'', ''0001'', ''005010X221A1''],
     composite_sep = CHR '':''\<rparr>"

definition ex_st2 :: segment where
  "ex_st2 = \<lparr>seg_identifier = ''ST'', elements = [''837'', ''0002''], composite_sep = CHR '':''\<rparr>"

definition ex_bpr :: segment where
  "ex_bpr = \<lparr>seg_identifier = ''BPR'', elements = [''I'', ''100.00''], composite_sep = CHR '':''\<rparr>"

definition ex_n1 :: segment where
  "ex_n1 = \<lparr>seg_identifier = ''N1'', elements = [''PR'', ''ACME:X''], composite_sep = CHR '':''\<rparr>"

definition ex_per :: segment where
  "ex_per = \<lparr>seg_identifier = ''PER'', elements = [''CX'', ''HELPDESK'', ''TE'', ''8005550100''],
     composite_sep = CHR '':''\<rparr>"

definition ex_clp :: segment where
  "ex_clp = \<lparr>seg_identifier = ''CLP'', elements = [''PCN1'', ''1'', ''150.00'', ''100.00''],
     composite_sep = CHR '':''\<rparr>"

definition ex_svc :: segment where
  "ex_svc = \<lparr>seg_identifier = ''SVC'', elements = [''HC:99213'', ''100.00'', ''80.00''],
     composite_sep = CHR '':''\<rparr>"

definition ex_svc2 :: segment where
  "ex_svc2 = \<lparr>seg_identifier = ''SVC'', elements = [''HC:85025'', ''50.00'', ''20.00''],
     composite_sep = CHR '':''\<rparr>"

definition ex_cas :: segment where
  "ex_cas = \<lparr>seg_identifier = ''CAS'', elements = [''CO'', ''45'', ''10.00'', ''1''],
     composite_sep = CHR '':''\<rparr>"

definition ex_amt :: segment where
  "ex_amt = \<lparr>seg_identifier = ''AMT'', elements = [''B6'', ''80.00''], composite_sep = CHR '':''\<rparr>"

definition ex_ref :: segment where
  "ex_ref = \<lparr>seg_identifier = ''REF'', elements = [''EA'', ''MRN42''], composite_sep = CHR '':''\<rparr>"


definition ex_dtm :: segment where
  "ex_dtm = \<lparr>seg_identifier = ''DTM'', elements = [''472'', ''20231201''], composite_sep = CHR '':''\<rparr>"

section \<open>Segment access\<close>

lemma element_beyond: "seg_length s < i \<Longrightarrow> element s i = ''''"
  by (simp add: element_def tokens_def seg_length_def)

lemma element_empty_segment: "element empty_segment i = ''''"
  by (cases i) (simp_all add: element_def tokens_def empty_segment_def)

text \<open>
  Claim C5. For every segment \<open>s\<close> and every index \<open>i\<close> greater than \<^verbatim>\<open>s.length()\<close>,
  \<^verbatim>\<open>s.element(i)\<close> is the empty string, and so is every sub-element \<^verbatim>\<open>s.element(i, j)\<close>
  at such an \<open>i\<close>; a sub-element index \<open>j\<close> outside the sub-elements of element \<open>i\<close> gives
  the empty string too. The accessors \<open>element\<close>, \<open>element2\<close> and \<open>seg_length\<close> are total
  functions into strings and numbers: none of them has an error result, so absence is
  only ever signalled by the empty string.
\<close>

theorem segment_access_out_of_range:
  "(seg_length s < i \<longrightarrow> element s i = '''' \<and> element2 s i j = '''') \<and>
   (length (split_on (composite_sep s) (element s i)) \<le> j \<longrightarrow> element2 s i j = '''')"
  by (auto simp add: element_def element2_def tokens_def seg_length_def Let_def)

theorem segment_access_out_of_range_witness:
  "seg_length ex_n1 < 3 \<and> element ex_n1 3 = '''' \<and> element2 ex_n1 3 0 = '''' \<and>
   length (split_on (composite_sep ex_n1) (element ex_n1 2)) \<le> 2 \<and> element2 ex_n1 2 2 = '''' \<and>
   element ex_n1 2 = ''ACME:X'' \<and> element2 ex_n1 2 1 = ''X''"
proof -
  have a: "seg_length ex_n1 < 3"
    by (simp add: ex_n1_def seg_length_def)
  have b: "length (split_on (composite_sep ex_n1) (element ex_n1 2)) \<le> 2"
    by (simp add: ex_n1_def element_def tokens_def)
  have c: "element ex_n1 2 = ''ACME:X''" "element2 ex_n1 2 1 = ''X''"
    by (simp_all add: ex_n1_def element_def element2_def tokens_def)
  from a b c segment_access_out_of_range [of ex_n1 3 0] segment_access_out_of_range [of ex_n1 2 2]
  show ?thesis by blast
qed

section \<open>Adjustment groups of a CAS segment\<close>

text \<open>
  Claim C2. For every CAS segment, \<open>populate_adjustment_groups\<close> returns one dict that
  holds the group code (element 1) and all six (reason, amount, quantity) triples, read
  from the fixed positions 2 to 19 in order; no triple is left out, whatever the segment
  holds. When the segment has the group code and the first triple only (at most four
  elements), the fifteen values of the triples 2 to 6 are all the empty string.
\<close>

theorem adjustment_groups_six_triples:
  "\<exists>d. populate_adjustment_groups cas = [PDict d] \<and>
     map fst d =
       [''adjustment_grp_cd'',
        ''adjustment_reason_cd_1'', ''adjustment_amount_1'', ''adjustment_quantity_1'',
        ''adjustment_reason_cd_2'', ''adjustment_amount_2'', ''adjustment_quantity_2'',
        ''adjustment_reason_cd_3'', ''adjustment_amount_3'', ''adjustment_quantity_3'',
        ''adjustment_reason_cd_4'', ''adjustment_amount_4'', ''adjustment_quantity_4'',
        ''adjustment_reason_cd_5'', ''adjustment_amount_5'', ''adjustment_quantity_5'',
        ''adjustment_reason_cd_6'', ''adjustment_amount_6'', ''adjustment_quantity_6''] \<and>
     map snd d = map (\<lambda>i. PStr (element cas i)) [1..<20] \<and>
     (seg_length cas \<le> 4 \<longrightarrow> drop 4 (map snd d) = replicate 15 (PStr ''''))"
proof -
  have u: "[1..<20] = [1,2,3,4,5,6,7,8,9,10,11,12,13,14,15,16,17,18,19::nat]"
    by (simp add: upt_rec)
  have r: "replicate 15 (PStr '''') = [PStr '''', PStr '''', PStr '''', PStr '''', PStr '''',
     PStr '''', PStr '''', PStr '''', PStr '''', PStr '''', PStr '''', PStr '''', PStr '''',
     PStr '''', PStr '''']"
    by (simp add: numeral_eq_Suc)
  show ?thesis
    unfolding populate_adjustment_groups_def Let_def u r
    by (simp add: element_beyond)
qed

theorem adjustment_groups_six_triples_witness:
  "seg_length ex_cas \<le> 4 \<and>
   (\<exists>d. populate_adjustment_groups ex_cas = [PDict d] \<and>
        drop 4 (map snd d) = replicate 15 (PStr '''')) \<and>
   populate_adjustment_groups ex_cas = [PDict [
        (''adjustment_grp_cd'', PStr ''CO''),
        (''adjustment_reason_cd_1'', PStr ''45''),
        (''adjustment_amount_1'', PStr ''10.00''),
        (''adjustment_quantity_1'', PStr ''1''),
        (''adjustment_reason_cd_2'', PStr ''''),
        (''adjustment_amount_2'', PStr ''''),
        (''adjustment_quantity_2'', PStr ''''),
        (''adjustment_reason_cd_3'', PStr ''''),
        (''adjustment_amount_3'', PStr ''''),
        (''adjustment_quantity_3'', PStr ''''),
        (''adjustment_reason_cd_4'', PStr ''''),
        (''adjustment_amount_4'', PStr ''''),
        (''adjustment_quantity_4'', PStr ''''),
        (''adjustment_reason_cd_5'', PStr ''''),
        (''adjustment_amount_5'', PStr ''''),
        (''adjustment_quantity_5'', PStr ''''),
        (''adjustment_reason_cd_6'', PStr ''''),
        (''adjustment_amount_6'', PStr ''''),
        (''adjustment_quantity_6'', PStr '''')]]"
proof -
  have a: "seg_length ex_cas \<le> 4"
    by (simp add: ex_cas_def seg_length_def)
  from adjustment_groups_six_triples [of ex_cas] a
  have b: "\<exists>d. populate_adjustment_groups ex_cas = [PDict d] \<and>
        drop 4 (map snd d) = replicate 15 (PStr '''')"
    by blast
  have c: "populate_adjustment_groups ex_cas = [PDict [
        (''adjustment_grp_cd'', PStr ''CO''),
        (''adjustment_reason_cd_1'', PStr ''45''),
        (''adjustment_amount_1'', PStr ''10.00''),
        (''adjustment_quantity_1'', PStr ''1''),
        (''adjustment_reason_cd_2'', PStr ''''),
        (''adjustment_amount_2'', PStr ''''),
        (''adjustment_quantity_2'', PStr ''''),
        (''adjustment_reason_cd_3'', PStr ''''),
        (''adjustment_amount_3'', PStr ''''),
        (''adjustment_quantity_3'', PStr ''''),
        (''adjustment_reason_cd_4'', PStr ''''),
        (''adjustment_amount_4'', PStr ''''),
        (''adjustment_quantity_4'', PStr ''''),
        (''adjustment_reason_cd_5'', PStr ''''),
        (''adjustment_amount_5'', PStr ''''),
        (''adjustment_quantity_5'', PStr ''''),
        (''adjustment_reason_cd_6'', PStr ''''),
        (''adjustment_amount_6'', PStr ''''),
        (''adjustment_quantity_6'', PStr '''')]]"
    by (simp add: populate_adjustment_groups_def element_def tokens_def ex_cas_def)
  from a b c show ?thesis by (intro conjI)
qed

section \<open>Provider adjustments of a PLB segment\<close>




section \<open>The header fields of a transaction\<close>

lemma parse_loop_no_st:
  "(\<forall>s\<in>set segs. segment_name s \<noteq> ''ST'') \<Longrightarrow> parse_st_segment_loop segs t = t"
  by (induction segs) auto

lemma parse_loop_first_st:
  "(\<forall>s\<in>set pre. segment_name s \<noteq> ''ST'') \<Longrightarrow> segment_name st = ''ST'' \<Longrightarrow>
   parse_st_segment_loop (pre @ st # post) t =
     t\<lparr>transaction_set_identifier_code := Some (element st 1),
       transaction_set_control_number := Some (element st 2),
       implementation_convention_reference := Some (element st 3)\<rparr>"
  by (induction pre) auto

lemma parse_loop_find:
  "find (\<lambda>s. segment_name s = ''ST'') segs = Some st \<Longrightarrow>
   parse_st_segment_loop segs t =
     t\<lparr>transaction_set_identifier_code := Some (element st 1),
       transaction_set_control_number := Some (element st 2),
       implementation_convention_reference := Some (element st 3)\<rparr>"
  by (induction segs) (auto split: if_splits)

text \<open>
  Claim C8. For every segment sequence that contains an ST segment, constructing a
  \<open>Transaction\<close> sets \<open>transaction_set_identifier_code\<close>,
  \<open>transaction_set_control_number\<close> and \<open>implementation_convention_reference\<close> to the
  elements 1, 2 and 3 of that ST segment (the first one named ST in the sequence).
\<close>

theorem transaction_st_fields:
  assumes "\<exists>s\<in>set segs. segment_name s = ''ST''"
  shows "\<exists>st. find (\<lambda>s. segment_name s = ''ST'') segs = Some st \<and>
           transaction_set_identifier_code (Transaction_init segs delim_cls trx_type) = Some (element st 1) \<and>
           transaction_set_control_number (Transaction_init segs delim_cls trx_type) = Some (element st 2) \<and>
           implementation_convention_reference (Transaction_init segs delim_cls trx_type) = Some (element st 3)"
proof -
  from assms have "find (\<lambda>s. segment_name s = ''ST'') segs \<noteq> None"
    by (auto simp add: find_None_iff)
  then obtain st where h: "find (\<lambda>s. segment_name s = ''ST'') segs = Some st"
    by blast
  show ?thesis
    unfolding Transaction_init_def parse_st_segment_def
    by (simp add: h parse_loop_find [OF h])
qed

theorem transaction_st_fields_witness:
  "(\<exists>s\<in>set [ex_st, ex_bpr]. segment_name s = ''ST'') \<and>
   transaction_set_identifier_code (Transaction_init [ex_st, ex_bpr] () ()) = Some ''835'' \<and>
   transaction_set_control_number (Transaction_init [ex_st, ex_bpr] () ()) = Some ''0001'' \<and>
   implementation_convention_reference (Transaction_init [ex_st, ex_bpr] () ()) = Some ''005010X221A1''"
proof -
  have a: "\<exists>s\<in>set [ex_st, ex_bpr]. segment_name s = ''ST''"
    by (simp add: segment_name_def ex_st_def)
  have f: "find (\<lambda>s. segment_name s = ''ST'') [ex_st, ex_bpr] = Some ex_st"
    by (simp add: segment_name_def ex_st_def)
  have e: "element ex_st 1 = ''835''" "element ex_st 2 = ''0001''" "element ex_st 3 = ''005010X221A1''"
    by (simp_all add: element_def tokens_def ex_st_def)
  from transaction_st_fields [OF a, of "()" "()"] obtain st where
    s: "find (\<lambda>s. segment_name s = ''ST'') [ex_st, ex_bpr] = Some st"
    and t: "transaction_set_identifier_code (Transaction_init [ex_st, ex_bpr] () ()) = Some (element st 1)"
      "transaction_set_control_number (Transaction_init [ex_st, ex_bpr] () ()) = Some (element st 2)"
      "implementation_convention_reference (Transaction_init [ex_st, ex_bpr] () ()) = Some (element st 3)"
    by blast
  from s f have "st = ex_st" by simp
  with t e a show ?thesis by simp
qed

text \<open>
  Claim C10. For every segment sequence with no ST segment, constructing a \<open>Transaction\<close>
  returns an object (the constructor has no failing step) whose three header fields are
  still \<^verbatim>\<open>None\<close>, not the empty string. When the sequence holds one or more ST segments,
  the fields come from the first of them in document order, wherever it stands: for any
  prefix without an ST and any rest after it.
\<close>

theorem transaction_without_st_and_first_st:
  "((\<forall>s\<in>set segs. segment_name s \<noteq> ''ST'') \<longrightarrow>
      Transaction_init segs delim_cls trx_type =
        \<lparr>data = segs, format_cls = delim_cls, transaction_type = trx_type,
         transaction_set_identifier_code = None,
         transaction_set_control_number = None,
         implementation_convention_reference = None\<rparr>) \<and>
   ((\<forall>s\<in>set pre. segment_name s \<noteq> ''ST'') \<and> segment_name st = ''ST'' \<longrightarrow>
      Transaction_init (pre @ st # post) delim_cls trx_type =
        \<lparr>data = pre @ st # post, format_cls = delim_cls, transaction_type = trx_type,
         transaction_set_identifier_code = Some (element st 1),
         transaction_set_control_number = Some (element st 2),
         implementation_convention_reference = Some (element st 3)\<rparr>)"
  unfolding Transaction_init_def parse_st_segment_def
  by (simp add: parse_loop_no_st parse_loop_first_st)

theorem transaction_without_st_and_first_st_witness:
  "segment_name ex_bpr \<noteq> ''ST'' \<and>
   Transaction_init [ex_bpr] () () =
        \<lparr>data = [ex_bpr], format_cls = (), transaction_type = (),
         transaction_set_identifier_code = None,
         transaction_set_control_number = None,
         implementation_convention_reference = None\<rparr> \<and>
   segment_name ex_st = ''ST'' \<and>
   Transaction_init ([ex_bpr] @ ex_st # [ex_st2]) () () =
        \<lparr>data = [ex_bpr] @ ex_st # [ex_st2], format_cls = (), transaction_type = (),
         transaction_set_identifier_code = Some ''835'',
         transaction_set_control_number = Some ''0001'',
         implementation_convention_reference = Some ''005010X221A1''\<rparr>"
proof -
  have a: "\<forall>s\<in>set [ex_bpr]. segment_name s \<noteq> ''ST''"
    by (simp add: segment_name_def ex_bpr_def)
  have b: "segment_name ex_st = ''ST''"
    by (simp add: segment_name_def ex_st_def)
  have e: "element ex_st 1 = ''835''" "element ex_st 2 = ''0001''" "element ex_st 3 = ''005010X221A1''"
    by (simp_all add: element_def tokens_def ex_st_def)
  from transaction_without_st_and_first_st [of "[ex_bpr]" "()" "()" "[ex_bpr]" ex_st "[ex_st2]"] a b
  have "Transaction_init [ex_bpr] () () =
        \<lparr>data = [ex_bpr], format_cls = (), transaction_type = (),
         transaction_set_identifier_code = None,
         transaction_set_control_number = None,
         implementation_convention_reference = None\<rparr>"
    and "Transaction_init ([ex_bpr] @ ex_st # [ex_st2]) () () =
        \<lparr>data = [ex_bpr] @ ex_st # [ex_st2], format_cls = (), transaction_type = (),
         transaction_set_identifier_code = Some (element ex_st 1),
         transaction_set_control_number = Some (element ex_st 2),
         implementation_convention_reference = Some (element ex_st 3)\<rparr>"
    by blast+
  with a b show ?thesis unfolding e by simp
qed

section \<open>Claim lines\<close>

text \<open>
  Claim C9. In every claim line produced by \<open>populate_claim_line\<close>, the list under
  \<^verbatim>\<open>claim_line_supplemental_quantity\<close> is built from the AMT segments of the line's
  slice, the same segments that give \<^verbatim>\<open>claim_line_supplemental_amount\<close>: the two lists
  have the same length, and the \<^verbatim>\<open>qty\<close> of the n-th quantity record, like the \<^verbatim>\<open>amt\<close> of
  the n-th amount record, is element 2 of the n-th AMT segment.
\<close>

theorem claim_line_quantity_from_amt:
  "\<exists>qs ams.
     py_get (populate_claim_line loop svc idx svc_end_idx) ''claim_line_supplemental_quantity''
       = Some (PList qs) \<and>
     py_get (populate_claim_line loop svc idx svc_end_idx) ''claim_line_supplemental_amount''
       = Some (PList ams) \<and>
     length qs = length ams \<and>
     map (\<lambda>q. py_get q ''qty'') qs =
       map (\<lambda>a. Some (PStr (element a 2))) (segments_by_name ''AMT'' (py_slice loop idx svc_end_idx)) \<and>
     map (\<lambda>q. py_get q ''amt'') ams =
       map (\<lambda>a. Some (PStr (element a 2))) (segments_by_name ''AMT'' (py_slice loop idx svc_end_idx))"
proof -
  let ?amts = "segments_by_name ''AMT'' (py_slice loop idx svc_end_idx)"
  let ?q = "\<lambda>a. PDict [
        (''quantity_qualifier'', PStr (element a 1)),
        (''qty'', PStr (element a 2)),
        (''composite_unit_of_measure'', PStr (element a 3))]"
  let ?a = "\<lambda>a. PDict [
        (''amt_qualifier_cd'', PStr (element a 1)),
        (''amt'', PStr (element a 2)),
        (''credit_debit_flag_code'', PStr (element a 3))]"
  have q: "py_get (populate_claim_line loop svc idx svc_end_idx) ''claim_line_supplemental_quantity''
       = Some (PList (map ?q ?amts))"
    unfolding populate_claim_line_def py_get_def by simp
  have a: "py_get (populate_claim_line loop svc idx svc_end_idx) ''claim_line_supplemental_amount''
       = Some (PList (map ?a ?amts))"
    unfolding populate_claim_line_def py_get_def by simp
  have l: "length (map ?q ?amts) = length (map ?a ?amts)" by simp
  have mq: "map (\<lambda>q. py_get q ''qty'') (map ?q ?amts) = map (\<lambda>a. Some (PStr (element a 2))) ?amts"
    by (simp add: py_get_def)
  have ma: "map (\<lambda>q. py_get q ''amt'') (map ?a ?amts) = map (\<lambda>a. Some (PStr (element a 2))) ?amts"
    by (simp add: py_get_def)
  from q a l mq ma show ?thesis by blast
qed

section \<open>The output of a remittance\<close>

lemma index_of_segment_nonneg: "0 \<le> index_of_segment segs name 0"
proof (cases "filter (\<lambda>(i, x). segment_name x = name \<and> 0 \<le> i) (py_enumerate segs)")
  case Nil
  then show ?thesis by (simp add: index_of_segment_def)
next
  case (Cons p rest)
  then have "p \<in> set (filter (\<lambda>(i, x). segment_name x = name \<and> 0 \<le> i) (py_enumerate segs))"
    by simp
  then have "0 \<le> fst p" by auto
  with Cons show ?thesis by (auto simp add: index_of_segment_def split: prod.splits)
qed

lemma claim_adjustments_returns: "\<exists>a. claim_adjustments loop = Inr a"
  unfolding claim_adjustments_def
  using index_of_segment_nonneg [of loop "''SVC''"] by simp

lemma populate_claim_loop_returns: "\<exists>v. populate_claim_loop loop = Inr v"
proof -
  from claim_adjustments_returns obtain a where a: "claim_adjustments loop = Inr a" by blast
  show ?thesis unfolding populate_claim_loop_def a by simp
qed

text \<open>
  Claim C4. For any six loops, whatever segments they hold, constructing the
  \<open>Remittance\<close> succeeds and \<open>to_json\<close> returns a dict with exactly the six keys
  \<^verbatim>\<open>payment\<close>, \<^verbatim>\<open>payer\<close>, \<^verbatim>\<open>payee\<close>, \<^verbatim>\<open>claim\<close>, \<^verbatim>\<open>provider_adjustments\<close> and
  \<^verbatim>\<open>header_info\<close>, each present once and bound to the sub-record computed from its loop.
\<close>

theorem to_json_six_keys:
  "\<exists>r. Remittance_init trx_header payer payee clm trx_summary header_number = Inr r \<and>
       dict_keys (to_json r) =
         [''payment'', ''payer'', ''payee'', ''claim'', ''provider_adjustments'', ''header_info''] \<and>
       to_json r = PDict [
         (''payment'', populate_trx_loop trx_header),
         (''payer'', populate_payer_loop payer),
         (''payee'', populate_payee_loop payee),
         (''claim'', clm_info r),
         (''provider_adjustments'', populate_plb_loop trx_summary),
         (''header_info'', populate_header_loop header_number)] \<and>
       populate_claim_loop clm = Inr (clm_info r)"
proof -
  from populate_claim_loop_returns obtain v where v: "populate_claim_loop clm = Inr v" by blast
  show ?thesis
    unfolding Remittance_init_def v
    by (simp add: to_json_def dict_keys_def dict_merge_def)
qed

section \<open>Payer and payee loops with absent segments\<close>

lemma first_seg_absent:
  "\<forall>s\<in>set loop. segment_name s \<noteq> name \<Longrightarrow> first_seg loop name i = empty_segment"
proof -
  assume a: "\<forall>s\<in>set loop. segment_name s \<noteq> name"
  have "filter (\<lambda>x. segment_name x = name) (py_slice_from loop i) = []"
    unfolding py_slice_from_def filter_empty_conv
    using a by (auto dest: in_set_dropD)
  then show ?thesis by (simp add: first_seg_def)
qed

lemma segments_by_name_absent:
  "\<forall>s\<in>set loop. segment_name s \<noteq> name \<Longrightarrow> segments_by_name name loop = []"
  by (simp add: segments_by_name_def filter_empty_conv)

text \<open>
  Claim C6, amended. For every loop, \<open>populate_payer_loop\<close> and \<open>populate_payee_loop\<close>
  return a dict with the full fixed list of keys. When the loop has no N1 segment (and
  likewise no N3, no N4, or for the payee no RDM), every field read from that segment is
  the empty string. A repeatable group is the empty list when the loop has no segment of
  the kind it is built from: the contacts when there is no PER, the additional
  identifications when there is no REF. Both functions are total: an absent segment, or
  an empty loop, gives neither a missing key nor an error.
\<close>

theorem payer_payee_absent_segments_default:
  "dict_keys (populate_payer_loop loop) =
     [''entity_identifier_code'', ''payer_name'', ''id_code_qualifier'', ''payer_identifier'',
      ''entity_relationship_code'', ''payer_address_line_1'', ''payer_address_line_2'',
      ''payer_city_name'', ''payer_state_code'', ''payer_postal_zone_or_zip_code'',
      ''country_code'', ''location_qualifier'', ''country_subdivision_code'',
      ''payer_contact_info'', ''payer_additional_identification''] \<and>
   dict_keys (populate_payee_loop loop) =
     [''entity_identifier_code'', ''payee_name'', ''id_code_qualifier'', ''payee_identifier'',
      ''entity_relationship_code'', ''payee_address_line_1'', ''payee_address_line_2'',
      ''payee_city_name'', ''payee_state_code'', ''payee_postal_zone_or_zip_code'',
      ''country_code'', ''location_qualifier'', ''country_subdivision_code'',
      ''payee_additional_identification'', ''delivery_report_transmission_code'',
      ''delivery_name'', ''delivery_communication_number'', ''delivery_reference_identifier''] \<and>
   ((\<forall>s\<in>set loop. segment_name s \<noteq> ''N1'') \<longrightarrow>
      map (py_get (populate_payer_loop loop))
        [''entity_identifier_code'', ''payer_name'', ''id_code_qualifier'', ''payer_identifier'',
         ''entity_relationship_code'']
        = [Some (PStr ''''), Some (PStr ''''), Some (PStr ''''), Some (PStr ''''), Some (PStr '''')] \<and>
      map (py_get (populate_payee_loop loop))
        [''entity_identifier_code'', ''payee_name'', ''id_code_qualifier'', ''payee_identifier'',
         ''entity_relationship_code'']
        = [Some (PStr ''''), Some (PStr ''''), Some (PStr ''''), Some (PStr ''''), Some (PStr '''')]) \<and>
   ((\<forall>s\<in>set loop. segment_name s \<noteq> ''N3'') \<longrightarrow>
      map (py_get (populate_payer_loop loop)) [''payer_address_line_1'', ''payer_address_line_2'']
        = [Some (PStr ''''), Some (PStr '''')] \<and>
      map (py_get (populate_payee_loop loop)) [''payee_address_line_1'', ''payee_address_line_2'']
        = [Some (PStr ''''), Some (PStr '''')]) \<and>
   ((\<forall>s\<in>set loop. segment_name s \<noteq> ''N4'') \<longrightarrow>
      map (py_get (populate_payer_loop loop))
        [''payer_city_name'', ''payer_state_code'', ''payer_postal_zone_or_zip_code'',
         ''country_code'', ''location_qualifier'', ''country_subdivision_code'']
        = [Some (PStr ''''), Some (PStr ''''), Some (PStr ''''), Some (PStr ''''), Some (PStr ''''),
           Some (PStr '''')] \<and>
      map (py_get (populate_payee_loop loop))
        [''payee_city_name'', ''payee_state_code'', ''payee_postal_zone_or_zip_code'',
         ''country_code'', ''location_qualifier'', ''country_subdivision_code'']
        = [Some (PStr ''''), Some (PStr ''''), Some (PStr ''''), Some (PStr ''''), Some (PStr ''''),
           Some (PStr '''')]) \<and>
   ((\<forall>s\<in>set loop. segment_name s \<noteq> ''RDM'') \<longrightarrow>
      map (py_get (populate_payee_loop loop))
        [''delivery_report_transmission_code'', ''delivery_name'',
         ''delivery_communication_number'', ''delivery_reference_identifier'']
        = [Some (PStr ''''), Some (PStr ''''), Some (PStr ''''), Some (PStr '''')]) \<and>
   ((\<forall>s\<in>set loop. segment_name s \<noteq> ''PER'') \<longrightarrow>
      py_get (populate_payer_loop loop) ''payer_contact_info'' = Some (PList [])) \<and>
   ((\<forall>s\<in>set loop. segment_name s \<noteq> ''REF'') \<longrightarrow>
      py_get (populate_payer_loop loop) ''payer_additional_identification'' = Some (PList []) \<and>
      py_get (populate_payee_loop loop) ''payee_additional_identification'' = Some (PList []))"
proof (intro conjI impI)
  show "dict_keys (populate_payer_loop loop) =
     [''entity_identifier_code'', ''payer_name'', ''id_code_qualifier'', ''payer_identifier'',
      ''entity_relationship_code'', ''payer_address_line_1'', ''payer_address_line_2'',
      ''payer_city_name'', ''payer_state_code'', ''payer_postal_zone_or_zip_code'',
      ''country_code'', ''location_qualifier'', ''country_subdivision_code'',
      ''payer_contact_info'', ''payer_additional_identification'']"
    by (simp add: populate_payer_loop_def dict_keys_def)
next
  show "dict_keys (populate_payee_loop loop) =
     [''entity_identifier_code'', ''payee_name'', ''id_code_qualifier'', ''payee_identifier'',
      ''entity_relationship_code'', ''payee_address_line_1'', ''payee_address_line_2'',
      ''payee_city_name'', ''payee_state_code'', ''payee_postal_zone_or_zip_code'',
      ''country_code'', ''location_qualifier'', ''country_subdivision_code'',
      ''payee_additional_identification'', ''delivery_report_transmission_code'',
      ''delivery_name'', ''delivery_communication_number'', ''delivery_reference_identifier'']"
    by (simp add: populate_payee_loop_def dict_keys_def)
qed (simp_all add: populate_payer_loop_def populate_payee_loop_def py_get_def
       first_seg_absent segments_by_name_absent element_empty_segment)

theorem payer_payee_absent_segments_default_witness:
  "segment_name ex_per \<noteq> ''N1'' \<and> segment_name ex_per \<noteq> ''N3'' \<and>
   segment_name ex_per \<noteq> ''N4'' \<and> segment_name ex_per \<noteq> ''RDM'' \<and>
   segment_name ex_per \<noteq> ''REF'' \<and> segment_name ex_ref \<noteq> ''PER'' \<and>
   py_get (populate_payer_loop [ex_ref]) ''payer_contact_info'' = Some (PList []) \<and>
   populate_payer_loop [ex_per] = PDict [
        (''entity_identifier_code'', PStr ''''),
        (''payer_name'', PStr ''''),
        (''id_code_qualifier'', PStr ''''),
        (''payer_identifier'', PStr ''''),
        (''entity_relationship_code'', PStr ''''),
        (''payer_address_line_1'', PStr ''''),
        (''payer_address_line_2'', PStr ''''),
        (''payer_city_name'', PStr ''''),
        (''payer_state_code'', PStr ''''),
        (''payer_postal_zone_or_zip_code'', PStr ''''),
        (''country_code'', PStr ''''),
        (''location_qualifier'', PStr ''''),
        (''country_subdivision_code'', PStr ''''),
        (''payer_contact_info'', PList [PDict [
           (''contact_function_cd'', PStr ''CX''),
           (''contact_name'', PStr ''HELPDESK''),
           (''communication_number_qualifier1'', PStr ''TE''),
           (''contact_communication1'', PStr ''8005550100''),
           (''communication_number_qualifier2'', PStr ''''),
           (''contact_communication2'', PStr ''''),
           (''communication_number_qualifier3'', PStr ''''),
           (''contact_communication3'', PStr ''''),
           (''contact_inquiry_reference'', PStr '''')]]),
        (''payer_additional_identification'', PList [])] \<and>
   populate_payee_loop [ex_per] = PDict [
        (''entity_identifier_code'', PStr ''''),
        (''payee_name'', PStr ''''),
        (''id_code_qualifier'', PStr ''''),
        (''payee_identifier'', PStr ''''),
        (''entity_relationship_code'', PStr ''''),
        (''payee_address_line_1'', PStr ''''),
        (''payee_address_line_2'', PStr ''''),
        (''payee_city_name'', PStr ''''),
        (''payee_state_code'', PStr ''''),
        (''payee_postal_zone_or_zip_code'', PStr ''''),
        (''country_code'', PStr ''''),
        (''location_qualifier'', PStr ''''),
        (''country_subdivision_code'', PStr ''''),
        (''payee_additional_identification'', PList []),
        (''delivery_report_transmission_code'', PStr ''''),
        (''delivery_name'', PStr ''''),
        (''delivery_communication_number'', PStr ''''),
        (''delivery_reference_identifier'', PStr '''')]"
proof -
  have n: "segment_name ex_per \<noteq> ''N1''" "segment_name ex_per \<noteq> ''N3''"
    "segment_name ex_per \<noteq> ''N4''" "segment_name ex_per \<noteq> ''RDM''"
    "segment_name ex_per \<noteq> ''REF''" "segment_name ex_ref \<noteq> ''PER''"
    by (simp_all add: segment_name_def ex_per_def ex_ref_def)
  note t = payer_payee_absent_segments_default [of "[ex_per]"]
  note u = payer_payee_absent_segments_default [of "[ex_ref]"]
  from u n have c: "py_get (populate_payer_loop [ex_ref]) ''payer_contact_info'' = Some (PList [])"
    by simp
  from t n have k: "dict_keys (populate_payer_loop [ex_per]) =
     [''entity_identifier_code'', ''payer_name'', ''id_code_qualifier'', ''payer_identifier'',
      ''entity_relationship_code'', ''payer_address_line_1'', ''payer_address_line_2'',
      ''payer_city_name'', ''payer_state_code'', ''payer_postal_zone_or_zip_code'',
      ''country_code'', ''location_qualifier'', ''country_subdivision_code'',
      ''payer_contact_info'', ''payer_additional_identification'']"
    by blast
  have f: "\<And>name. name \<noteq> ''PER'' \<Longrightarrow> first_seg [ex_per] name 0 = empty_segment"
    by (rule first_seg_absent) (simp add: segment_name_def ex_per_def)
  have g: "\<And>name. name \<noteq> ''PER'' \<Longrightarrow> segments_by_name name [ex_per] = []"
    by (rule segments_by_name_absent) (simp add: segment_name_def ex_per_def)
  have h: "segments_by_name ''PER'' [ex_per] = [ex_per]"
    by (simp add: segments_by_name_def segment_name_def ex_per_def)
  have e: "element ex_per (Suc 0) = ''CX''" "element ex_per 2 = ''HELPDESK''" "element ex_per 3 = ''TE''"
    "element ex_per 4 = ''8005550100''" "element ex_per 5 = ''''" "element ex_per 6 = ''''"
    "element ex_per 7 = ''''" "element ex_per 8 = ''''" "element ex_per 9 = ''''"
    by (simp_all add: element_def tokens_def ex_per_def)
  have p: "populate_payer_loop [ex_per] = PDict [
        (''entity_identifier_code'', PStr ''''),
        (''payer_name'', PStr ''''),
        (''id_code_qualifier'', PStr ''''),
        (''payer_identifier'', PStr ''''),
        (''entity_relationship_code'', PStr ''''),
        (''payer_address_line_1'', PStr ''''),
        (''payer_address_line_2'', PStr ''''),
        (''payer_city_name'', PStr ''''),
        (''payer_state_code'', PStr ''''),
        (''payer_postal_zone_or_zip_code'', PStr ''''),
        (''country_code'', PStr ''''),
        (''location_qualifier'', PStr ''''),
        (''country_subdivision_code'', PStr ''''),
        (''payer_contact_info'', PList [PDict [
           (''contact_function_cd'', PStr ''CX''),
           (''contact_name'', PStr ''HELPDESK''),
           (''communication_number_qualifier1'', PStr ''TE''),
           (''contact_communication1'', PStr ''8005550100''),
           (''communication_number_qualifier2'', PStr ''''),
           (''contact_communication2'', PStr ''''),
           (''communication_number_qualifier3'', PStr ''''),
           (''contact_communication3'', PStr ''''),
           (''contact_inquiry_reference'', PStr '''')]]),
        (''payer_additional_identification'', PList [])]"
    unfolding populate_payer_loop_def
    by (simp add: f g h e element_empty_segment)
  have q: "populate_payee_loop [ex_per] = PDict [
        (''entity_identifier_code'', PStr ''''),
        (''payee_name'', PStr ''''),
        (''id_code_qualifier'', PStr ''''),
        (''payee_identifier'', PStr ''''),
        (''entity_relationship_code'', PStr ''''),
        (''payee_address_line_1'', PStr ''''),
        (''payee_address_line_2'', PStr ''''),
        (''payee_city_name'', PStr ''''),
        (''payee_state_code'', PStr ''''),
        (''payee_postal_zone_or_zip_code'', PStr ''''),
        (''country_code'', PStr ''''),
        (''location_qualifier'', PStr ''''),
        (''country_subdivision_code'', PStr ''''),
        (''payee_additional_identification'', PList []),
        (''delivery_report_transmission_code'', PStr ''''),
        (''delivery_name'', PStr ''''),
        (''delivery_communication_number'', PStr ''''),
        (''delivery_reference_identifier'', PStr '''')]"
    unfolding populate_payee_loop_def
    by (simp add: f g element_empty_segment)
  from n c k p q show ?thesis by (intro conjI)
qed

text \<open>
  Claim C6 as first stated makes every repeatable group empty as soon as the loop has no
  N1 (or N3, N4, RDM) segment. The contacts are built from the PER segments whatever else
  the loop holds (remittance.py, lines 145-158): a loop made of one PER segment has none
  of N1, N3, N4 and RDM, and its \<^verbatim>\<open>payer_contact_info\<close> holds one record.
\<close>

theorem payer_contacts_without_n1_counterexample:
  "segment_name ex_per \<noteq> ''N1'' \<and> segment_name ex_per \<noteq> ''N3'' \<and>
   segment_name ex_per \<noteq> ''N4'' \<and> segment_name ex_per \<noteq> ''RDM'' \<and>
   py_get (populate_payer_loop [ex_per]) ''payer_contact_info'' \<noteq> Some (PList [])"
proof -
  have n: "segment_name ex_per \<noteq> ''N1''" "segment_name ex_per \<noteq> ''N3''"
    "segment_name ex_per \<noteq> ''N4''" "segment_name ex_per \<noteq> ''RDM''"
    by (simp_all add: segment_name_def ex_per_def)
  have h: "segments_by_name ''PER'' [ex_per] = [ex_per]"
    by (simp add: segments_by_name_def segment_name_def ex_per_def)
  have c: "\<exists>c. py_get (populate_payer_loop [ex_per]) ''payer_contact_info'' = Some (PList [c])"
    unfolding populate_payer_loop_def py_get_def by (simp add: h)
  then have d: "py_get (populate_payer_loop [ex_per]) ''payer_contact_info'' \<noteq> Some (PList [])"
    by auto
  from n d show ?thesis by (intro conjI)
qed

section \<open>Claim-level adjustments and the end of the claim loop\<close>

text \<open>
  Claim C7, run on a loop without SVC whose last segment is a CAS. The search index of
  SVC is the length of the loop, 2, and the slice of \<open>claim_adjustments\<close> ends at
  \<^verbatim>\<open>len(clm_loop) - 1\<close>, so for the loop CLP, CAS the slice \<^verbatim>\<open>clm_loop[1:1]\<close> is empty and
  the CAS contributes nothing, although its adjustment group is not empty. The same CAS
  does contribute once any segment follows it. The sibling keys of the claim (contacts,
  related identifications, supplemental amounts and quantities) slice up to the search
  index itself and do read the last segment of such a loop, here a REF.
\<close>

theorem claim_adjustments_skip_final_segment:
  "index_of_segment [ex_clp, ex_cas] ''SVC'' 0 = 2 \<and>
   claim_adjustments [ex_clp, ex_cas] = Inr [] \<and>
   populate_adjustment_groups ex_cas \<noteq> [] \<and>
   claim_adjustments [ex_clp, ex_cas, ex_ref] = Inr (populate_adjustment_groups ex_cas) \<and>
   segments_by_name ''REF'' (py_slice_to [ex_clp, ex_ref] (index_of_segment [ex_clp, ex_ref] ''SVC'' 0))
     = [ex_ref]"
proof (intro conjI)
  show a: "index_of_segment [ex_clp, ex_cas] ''SVC'' 0 = 2"
    by (simp add: index_of_segment_def py_enumerate_def segment_name_def ex_clp_def ex_cas_def)
  have s: "py_slice [ex_clp, ex_cas] 1 1 = []"
    by (simp add: py_slice_def py_slice_index_def)
  show "claim_adjustments [ex_clp, ex_cas] = Inr []"
    unfolding claim_adjustments_def a
    by (simp add: s segments_by_name_def)
  show "populate_adjustment_groups ex_cas \<noteq> []"
    by (simp add: populate_adjustment_groups_def)
  have b: "index_of_segment [ex_clp, ex_cas, ex_ref] ''SVC'' 0 = 3"
    by (simp add: index_of_segment_def py_enumerate_def segment_name_def ex_clp_def ex_cas_def
        ex_ref_def)
  have t: "py_slice [ex_clp, ex_cas, ex_ref] 1 2 = [ex_cas]"
    by (simp add: py_slice_def py_slice_index_def)
  have n: "segments_by_name ''CAS'' [ex_cas] = [ex_cas]"
    by (simp add: segments_by_name_def segment_name_def ex_cas_def)
  show "claim_adjustments [ex_clp, ex_cas, ex_ref] = Inr (populate_adjustment_groups ex_cas)"
    unfolding claim_adjustments_def b
    by (simp add: t n)
  have c: "index_of_segment [ex_clp, ex_ref] ''SVC'' 0 = 2"
    by (simp add: index_of_segment_def py_enumerate_def segment_name_def ex_clp_def ex_ref_def)
  show "segments_by_name ''REF'' (py_slice_to [ex_clp, ex_ref] (index_of_segment [ex_clp, ex_ref] ''SVC'' 0))
     = [ex_ref]"
    unfolding c
    by (simp add: py_slice_to_def py_slice_index_def segments_by_name_def segment_name_def
        ex_clp_def ex_ref_def)
qed

section \<open>Claim lines and the end of the claim loop\<close>

text \<open>
  Every SVC segment of the loop gives one claim line, in document order.
\<close>

lemma enumerate_from_filter_snd:
  "map snd (filter (\<lambda>(i, x). P x) (enumerate_from k xs)) = filter P xs"
  by (induction xs arbitrary: k) auto

lemma claim_lines_one_per_svc:
  "length (claim_lines loop) = length (segments_by_name ''SVC'' loop)"
proof -
  have "length (claim_lines loop) = length (map snd (segments_by_name_index ''SVC'' loop))"
    by (simp add: claim_lines_def)
  also have "map snd (segments_by_name_index ''SVC'' loop) = segments_by_name ''SVC'' loop"
    unfolding segments_by_name_index_def segments_by_name_def py_enumerate_def
    by (rule enumerate_from_filter_snd)
  finally show ?thesis .
qed

text \<open>
  Claim C1, run on three loops. In the loop CLP, SVC, CAS the only claim line is read from
  the slice \<^verbatim>\<open>clm_loop[1:2]\<close>: the end of the last line is \<^verbatim>\<open>len(clm_loop) - 1\<close>, not the
  end of the loop, so the final CAS is outside the slice and the line has no adjustments,
  although the adjustment group of that CAS is not empty. With a second SVC after the CAS
  the first line ends at the next SVC's index and does hold the group. In the loop CLP,
  SVC, SVC, DTM, AMT the first line's slice is \<^verbatim>\<open>clm_loop[1:2]\<close>, yet its
  \<^verbatim>\<open>claim_line_dates\<close> are those of the DTM at index 3, which lies in the second line:
  the date is searched from the SVC's index to the end of the loop.
\<close>

theorem claim_lines_last_line_skips_final_segment:
  "claim_lines [ex_clp, ex_svc, ex_cas] =
     [populate_claim_line [ex_clp, ex_svc, ex_cas] ex_svc 1 2] \<and>
   py_slice [ex_clp, ex_svc, ex_cas] 1 2 = [ex_svc] \<and>
   py_get (populate_claim_line [ex_clp, ex_svc, ex_cas] ex_svc 1 2) ''claim_line_adjustments''
     = Some (PList []) \<and>
   populate_adjustment_groups ex_cas \<noteq> [] \<and>
   claim_lines [ex_clp, ex_svc, ex_cas, ex_svc2] =
     [populate_claim_line [ex_clp, ex_svc, ex_cas, ex_svc2] ex_svc 1 3,
      populate_claim_line [ex_clp, ex_svc, ex_cas, ex_svc2] ex_svc2 3 3] \<and>
   py_get (populate_claim_line [ex_clp, ex_svc, ex_cas, ex_svc2] ex_svc 1 3) ''claim_line_adjustments''
     = Some (PList (populate_adjustment_groups ex_cas)) \<and>
   claim_lines [ex_clp, ex_svc, ex_svc2, ex_dtm, ex_amt] =
     [populate_claim_line [ex_clp, ex_svc, ex_svc2, ex_dtm, ex_amt] ex_svc 1 2,
      populate_claim_line [ex_clp, ex_svc, ex_svc2, ex_dtm, ex_amt] ex_svc2 2 4] \<and>
   py_get (populate_claim_line [ex_clp, ex_svc, ex_svc2, ex_dtm, ex_amt] ex_svc 1 2) ''claim_line_dates''
     = Some (PDict [(''date_code'', PStr ''472''), (''date'', PStr ''20231201''), (''time'', PStr '''')])"
proof (intro conjI)
  have n: "segment_name ex_clp = ''CLP''" "segment_name ex_svc = ''SVC''"
    "segment_name ex_svc2 = ''SVC''" "segment_name ex_cas = ''CAS''"
    "segment_name ex_dtm = ''DTM''" "segment_name ex_amt = ''AMT''"
    by (simp_all add: segment_name_def ex_clp_def ex_svc_def ex_svc2_def ex_cas_def ex_dtm_def
        ex_amt_def)
  show "claim_lines [ex_clp, ex_svc, ex_cas] =
     [populate_claim_line [ex_clp, ex_svc, ex_cas] ex_svc 1 2]"
    by (simp add: claim_lines_def segments_by_name_index_def index_of_segment_def
        py_enumerate_def n)
  show "py_slice [ex_clp, ex_svc, ex_cas] 1 2 = [ex_svc]"
    by (simp add: py_slice_def py_slice_index_def)
  have s1: "segments_by_name ''CAS'' (py_slice [ex_clp, ex_svc, ex_cas] 1 2) = []"
    by (simp add: py_slice_def py_slice_index_def segments_by_name_def n)
  show "py_get (populate_claim_line [ex_clp, ex_svc, ex_cas] ex_svc 1 2) ''claim_line_adjustments''
     = Some (PList [])"
    unfolding populate_claim_line_def py_get_def s1 by simp
  show "populate_adjustment_groups ex_cas \<noteq> []"
    by (simp add: populate_adjustment_groups_def)
  show "claim_lines [ex_clp, ex_svc, ex_cas, ex_svc2] =
     [populate_claim_line [ex_clp, ex_svc, ex_cas, ex_svc2] ex_svc 1 3,
      populate_claim_line [ex_clp, ex_svc, ex_cas, ex_svc2] ex_svc2 3 3]"
    by (simp add: claim_lines_def segments_by_name_index_def index_of_segment_def
        py_enumerate_def n)
  have s2: "segments_by_name ''CAS'' (py_slice [ex_clp, ex_svc, ex_cas, ex_svc2] 1 3) = [ex_cas]"
    by (simp add: py_slice_def py_slice_index_def segments_by_name_def n)
  show "py_get (populate_claim_line [ex_clp, ex_svc, ex_cas, ex_svc2] ex_svc 1 3) ''claim_line_adjustments''
     = Some (PList (populate_adjustment_groups ex_cas))"
    unfolding populate_claim_line_def py_get_def s2 by simp
  show "claim_lines [ex_clp, ex_svc, ex_svc2, ex_dtm, ex_amt] =
     [populate_claim_line [ex_clp, ex_svc, ex_svc2, ex_dtm, ex_amt] ex_svc 1 2,
      populate_claim_line [ex_clp, ex_svc, ex_svc2, ex_dtm, ex_amt] ex_svc2 2 4]"
    by (simp add: claim_lines_def segments_by_name_index_def index_of_segment_def
        py_enumerate_def n)
  have f: "first_seg [ex_clp, ex_svc, ex_svc2, ex_dtm, ex_amt] ''DTM'' 1 = ex_dtm"
    by (simp add: first_seg_def py_slice_from_def py_slice_index_def n)
  have e: "element ex_dtm (Suc 0) = ''472''" "element ex_dtm 2 = ''20231201''" "element ex_dtm 3 = ''''"
    by (simp_all add: element_def tokens_def ex_dtm_def)
  show "py_get (populate_claim_line [ex_clp, ex_svc, ex_svc2, ex_dtm, ex_amt] ex_svc 1 2) ''claim_line_dates''
     = Some (PDict [(''date_code'', PStr ''472''), (''date'', PStr ''20231201''), (''time'', PStr '''')])"
    unfolding populate_claim_line_def py_get_def f by (simp add: e)
qed

end
